theory Spec2Isabelle
  imports Main
begin

section \<open>Python primitives used by \<^verbatim>\<open>create_pep440_version.py\<close>\<close>

text \<open>
  Python strings are modelled as \<^typ>\<open>string\<close>, so the model covers inputs whose code
  points are below 256. On those, the regular-expression class \<^verbatim>\<open>\d\<close> is exactly
  \<^verbatim>\<open>[0-9]\<close>.
\<close>

text \<open>The exceptions the script can end with.\<close>

datatype error =
    ValueError string
  | AttributeError
  | AssertionError string

text \<open>\<^verbatim>\<open>sub in s\<close> on strings: \<^verbatim>\<open>sub\<close> occurs in \<^verbatim>\<open>s\<close> as a contiguous substring.\<close>

fun str_contains :: "string \<Rightarrow> string \<Rightarrow> bool" where
  "str_contains sub [] = (sub = [])"
| "str_contains sub (c # cs) = (take (length sub) (c # cs) = sub \<or> str_contains sub cs)"

text \<open>\<^verbatim>\<open>s.split(sep)\<close> for a one-character separator: never the empty list.\<close>

fun str_split :: "char \<Rightarrow> string \<Rightarrow> string list" where
  "str_split sep [] = [[]]"
| "str_split sep (c # cs) =
     (if c = sep then [] # str_split sep cs
      else (case str_split sep cs of
              [] \<Rightarrow> [[c]]
            | w # ws \<Rightarrow> (c # w) # ws))"

text \<open>
  \<^verbatim>\<open>s.partition(sep)\<close> for a one-character separator: the part before the first
  separator, the separator (empty when there is none) and the part after it.
\<close>

fun str_partition :: "char \<Rightarrow> string \<Rightarrow> string \<times> string \<times> string" where
  "str_partition sep [] = ([], [], [])"
| "str_partition sep (c # cs) =
     (if c = sep then ([], [sep], cs)
      else (case str_partition sep cs of (before, mid, after) \<Rightarrow> (c # before, mid, after)))"

text \<open>An optional string inside an f-string: \<^verbatim>\<open>None\<close> is rendered as the word None.\<close>

fun fmt :: "string option \<Rightarrow> string" where
  "fmt None = ''None''"
| "fmt (Some s) = s"

text \<open>\<^verbatim>\<open>str(n)\<close> for an integer, as an f-string renders it.\<close>

definition digit_char :: "nat \<Rightarrow> char" where
  "digit_char d = ''0123456789'' ! d"

fun str_nat :: "nat \<Rightarrow> string" where
  "str_nat n = (if n < 10 then [digit_char n] else str_nat (n div 10) @ [digit_char (n mod 10)])"

definition str_int :: "int \<Rightarrow> string" where
  "str_int i = (if i < 0 then CHR ''-'' # str_nat (nat (- i)) else str_nat (nat i))"

section \<open>Regular expressions with Python's matching order\<close>

definition in_range :: "char \<Rightarrow> char \<Rightarrow> char \<Rightarrow> bool" where
  "in_range lo hi c = ((of_char lo :: nat) \<le> of_char c \<and> (of_char c :: nat) \<le> of_char hi)"

fun in_class :: "(char \<times> char) list \<Rightarrow> char \<Rightarrow> bool" where
  "in_class [] c = False"
| "in_class ((lo, hi) # rs) c = (in_range lo hi c \<or> in_class rs c)"

text \<open>
  The fragment of \<^verbatim>\<open>re\<close> syntax the script's pattern uses: a literal character, a
  bracketed class given by its ranges, \<^verbatim>\<open>\d\<close>, concatenation, \<^verbatim>\<open>|\<close>, \<^verbatim>\<open>*\<close>,
  \<^verbatim>\<open>?\<close>, a named group \<^verbatim>\<open>(?P<name>...)\<close>, \<^verbatim>\<open>^\<close> and \<^verbatim>\<open>$\<close>. A non-capturing
  group \<^verbatim>\<open>(?:...)\<close> is only bracketing.
\<close>

datatype regex =
    Chr char
  | Cls "(char \<times> char) list"
  | Digit
  | Seq regex regex
  | Alt regex regex
  | Star regex
  | Opt regex
  | Grp string regex
  | Bol
  | Eol

text \<open>
  A matcher state: the number of characters consumed, the rest of the input, and the
  groups captured so far (latest first).
\<close>

type_synonym groups = "(string \<times> string) list"
type_synonym mstate = "nat \<times> string \<times> groups"

fun step_char :: "(char \<Rightarrow> bool) \<Rightarrow> mstate \<Rightarrow> mstate list" where
  "step_char P (i, [], g) = []"
| "step_char P (i, x # xs, g) = (if P x then [(Suc i, xs, g)] else [])"

text \<open>
  All the ways a pattern matches at a state, in the order a backtracking matcher tries
  them: the left alternative first, the greedy choice (one more iteration, the optional
  part present) first. An iteration of \<^verbatim>\<open>*\<close> that consumes nothing is not repeated.
  \<^verbatim>\<open>$\<close> holds at the end of the input and just before a final newline.
\<close>

fun ms :: "regex \<Rightarrow> mstate \<Rightarrow> mstate list" where
  "ms (Chr c) st = step_char (\<lambda>x. x = c) st"
| "ms (Cls rs) st = step_char (in_class rs) st"
| "ms Digit st = step_char (in_range (CHR ''0'') (CHR ''9'')) st"
| "ms (Seq a b) st = concat (map (ms b) (ms a st))"
| "ms (Alt a b) st = ms a st @ ms b st"
| "ms (Opt a) st = ms a st @ [st]"
| "ms (Star a) (i, s, g) =
     concat (map (\<lambda>(j, s', g'). if length s' < length s then ms (Star a) (j, s', g') else [])
                 (ms a (i, s, g))) @ [(i, s, g)]"
| "ms (Grp n a) (i, s, g) =
     map (\<lambda>(j, s', g'). (j, s', (n, take (length s - length s') s) # g')) (ms a (i, s, g))"
| "ms Bol (i, s, g) = (if i = 0 then [(i, s, g)] else [])"
| "ms Eol (i, s, g) = (if s = [] \<or> s = [CHR 0x0A] then [(i, s, g)] else [])"

text \<open>
  \<^verbatim>\<open>re.match(p, s)\<close>: the first match of \<^verbatim>\<open>p\<close> at the start of \<^verbatim>\<open>s\<close>, or
  \<^verbatim>\<open>None\<close>. \<^verbatim>\<open>groupdict()\<close> maps each group name to what it captured, and to
  \<^verbatim>\<open>None\<close> when the group took no part in the match.
\<close>

definition re_match :: "regex \<Rightarrow> string \<Rightarrow> groups option" where
  "re_match p s = (case ms p (0, s, []) of [] \<Rightarrow> None | (_, _, g) # _ \<Rightarrow> Some g)"

definition groupdict :: "groups \<Rightarrow> string \<Rightarrow> string option" where
  "groupdict g = map_of g"

section \<open>The script\<close>

text \<open>\<^verbatim>\<open>0|[1-9]\d*\<close>\<close>

definition numeric_id :: regex where
  "numeric_id = Alt (Chr (CHR ''0'')) (Seq (Cls [(CHR ''1'', CHR ''9'')]) (Star Digit))"

text \<open>\<^verbatim>\<open>[0-9a-zA-Z-]\<close> and \<^verbatim>\<open>[a-zA-Z-]\<close>\<close>

definition alnum_hyphen :: "(char \<times> char) list" where
  "alnum_hyphen =
     [(CHR ''0'', CHR ''9''), (CHR ''a'', CHR ''z''), (CHR ''A'', CHR ''Z''), (CHR ''-'', CHR ''-'')]"

definition alpha_hyphen :: "(char \<times> char) list" where
  "alpha_hyphen = [(CHR ''a'', CHR ''z''), (CHR ''A'', CHR ''Z''), (CHR ''-'', CHR ''-'')]"

text \<open>\<^verbatim>\<open>0|[1-9]\d*|\d*[a-zA-Z-][0-9a-zA-Z-]*\<close>\<close>

definition prerelease_id :: regex where
  "prerelease_id =
     Alt (Chr (CHR ''0''))
      (Alt (Seq (Cls [(CHR ''1'', CHR ''9'')]) (Star Digit))
           (Seq (Star Digit) (Seq (Cls alpha_hyphen) (Star (Cls alnum_hyphen)))))"

text \<open>\<^verbatim>\<open>[0-9a-zA-Z-]+\<close>\<close>

definition build_id :: regex where
  "build_id = Seq (Cls alnum_hyphen) (Star (Cls alnum_hyphen))"

text \<open>\<^verbatim>\<open>P(?:\.P)*\<close> and \<^verbatim>\<open>B(?:\.B)*\<close>: identifiers separated by dots.\<close>

definition prerelease_body :: regex where
  "prerelease_body = Seq prerelease_id (Star (Seq (Chr (CHR ''.'')) prerelease_id))"

definition build_body :: regex where
  "build_body = Seq build_id (Star (Seq (Chr (CHR ''.'')) build_id))"

text \<open>
  The pattern of \<^verbatim>\<open>create_pep440_version\<close>:
  \<^verbatim>\<open>^v(?P<major>N)\.(?P<minor>N)\.(?P<patch>N)(?:-(?P<prerelease>P(?:\.P)*))?(?:\+(?P<buildmetadata>B(?:\.B)*))?$\<close>
  with \<^verbatim>\<open>N\<close>, \<^verbatim>\<open>P\<close> and \<^verbatim>\<open>B\<close> the three identifier patterns above.
\<close>

definition semver_pattern :: regex where
  "semver_pattern =
     Seq Bol (Seq (Chr (CHR ''v''))
       (Seq (Grp ''major'' numeric_id) (Seq (Chr (CHR ''.''))
       (Seq (Grp ''minor'' numeric_id) (Seq (Chr (CHR ''.''))
       (Seq (Grp ''patch'' numeric_id)
       (Seq (Opt (Seq (Chr (CHR ''-'')) (Grp ''prerelease'' prerelease_body)))
       (Seq (Opt (Seq (Chr (CHR ''+'')) (Grp ''buildmetadata'' build_body)))
        Eol))))))))"

text \<open>The inner function \<^verbatim>\<open>raise_error\<close> of \<^verbatim>\<open>_get_prerelease_and_dev_segment\<close>.\<close>

definition raise_error :: "string \<Rightarrow> error + 'a" where
  "raise_error prerelease =
     Inl (ValueError (''Do not know how to handle prerelease '' @ prerelease @ ''.''))"

definition prerelease_cycle_to_short_name :: "(string \<times> string) list" where
  "prerelease_cycle_to_short_name = [(''alpha'', ''a''), (''beta'', ''b''), (''rc'', ''rc'')]"

text \<open>Lines 104 to 105: the development segment of a captured development value.\<close>

fun dev_segment_of :: "string option \<Rightarrow> string" where
  "dev_segment_of None = ''''"
| "dev_segment_of (Some dev_value) = ''.dev'' @ dev_value"

text \<open>
  Lines 96 to 102, the branches taken when the first part has no short name: the
  \<^verbatim>\<open>elif\<close> for \<^verbatim>\<open>dev\<close> and the final \<^verbatim>\<open>else\<close>.
\<close>

definition dev_or_error :: "string \<Rightarrow> string list \<Rightarrow> error + string \<times> string" where
  "dev_or_error prerelease prerelease_parts =
     (if prerelease_parts ! 0 = ''dev'' then
        (if length prerelease_parts = 2
         then Inr ('''', dev_segment_of (Some (prerelease_parts ! 1)))
         else raise_error prerelease)
      else raise_error prerelease)"

text \<open>
  \<^verbatim>\<open>_get_prerelease_and_dev_segment\<close>. A Python condition on an optional string is
  false for \<^verbatim>\<open>None\<close> and for the empty string. The parts are indexed only after the
  check that there are two or three of them.
\<close>

definition get_prerelease_and_dev_segment ::
    "(string \<Rightarrow> string option) \<Rightarrow> error + string \<times> string" where
  "get_prerelease_and_dev_segment result_dict =
     (case result_dict ''prerelease'' of
        None \<Rightarrow> Inr ('''', '''')
      | Some prerelease \<Rightarrow>
          if prerelease = [] then Inr ('''', '''')
          else
            let prerelease_parts = str_split (CHR ''.'') prerelease in
            if length prerelease_parts \<notin> {2, 3} then raise_error prerelease
            else
              (case map_of prerelease_cycle_to_short_name (prerelease_parts ! 0) of
                 None \<Rightarrow> dev_or_error prerelease prerelease_parts
               | Some short_name \<Rightarrow>
                   if short_name = [] then dev_or_error prerelease prerelease_parts
                   else
                     Inr (short_name @ prerelease_parts ! 1,
                          dev_segment_of
                            (if length prerelease_parts = 3
                             then Some (prerelease_parts ! 2) else None))))"

text \<open>\<^verbatim>\<open>_get_local_version_label\<close>\<close>

definition get_local_version_label :: "(string \<Rightarrow> string option) \<Rightarrow> string" where
  "get_local_version_label result_dict =
     (case result_dict ''buildmetadata'' of
        None \<Rightarrow> ''''
      | Some buildmetadata \<Rightarrow>
          if buildmetadata = [] then ''''
          else
            let commit_hash = fst (str_partition (CHR ''.'') buildmetadata)
            in ''+'' @ commit_hash)"

text \<open>
  \<^verbatim>\<open>create_pep440_version\<close>. When the pattern does not match, \<^verbatim>\<open>re.match\<close> returns
  \<^verbatim>\<open>None\<close> and the call \<^verbatim>\<open>result.groupdict()\<close> on line 48 raises
  \<^verbatim>\<open>AttributeError\<close>.
\<close>

definition create_pep440_version :: "string \<Rightarrow> error + string" where
  "create_pep440_version semtag_version =
     (if str_contains ''unstaged'' semtag_version \<or> str_contains ''uncommitted'' semtag_version
      then Inl (ValueError
        ''Cannot create PEP440-compliant version identifier if there are uncommited or unstaged changes.'')
      else
        (case re_match semver_pattern semtag_version of
           None \<Rightarrow> Inl AttributeError
         | Some result \<Rightarrow>
             let result_dict = groupdict result;
                 major = result_dict ''major'';
                 minor = result_dict ''minor'';
                 patch = result_dict ''patch'';
                 epoch_segment = fmt major @ ''.'';
                 release_segment = fmt minor @ ''.'' @ fmt patch
             in
               (case get_prerelease_and_dev_segment result_dict of
                  Inl e \<Rightarrow> Inl e
                | Inr (prerelease_segment, dev_segment) \<Rightarrow>
                    let local_version_label = get_local_version_label result_dict
                    in Inr (epoch_segment @ release_segment @ prerelease_segment
                            @ dev_segment @ local_version_label))))"

text \<open>The table and the loop of \<^verbatim>\<open>_test_create_pep440_version\<close>.\<close>

definition semtag_version_to_pep440_version :: "(string \<times> string) list" where
  "semtag_version_to_pep440_version =
     [(''v0.14.0-alpha.1.2+f0e563586.feature-MLB-2000-developer-create-python-compatibl'',
         ''0.14.0a1.dev2+f0e563586''),
      (''v0.14.0-alpha.1.2'', ''0.14.0a1.dev2''),
      (''v0.14.0-alpha.1'', ''0.14.0a1''),
      (''v0.14.0-beta.1'', ''0.14.0b1''),
      (''v0.14.0-rc.1'', ''0.14.0rc1''),
      (''v0.13.1-dev.1'', ''0.13.1.dev1''),
      (''v0.14.0'', ''0.14.0''),
      (''v0.15.0'', ''0.15.0''),
      (''v1.15.0'', ''1.15.0'')]"

fun test_loop :: "(string \<times> string) list \<Rightarrow> error + unit" where
  "test_loop [] = Inr ()"
| "test_loop ((semtag_version, pep440_version_ref) # rest) =
     (case create_pep440_version semtag_version of
        Inl e \<Rightarrow> Inl e
      | Inr pep440_version \<Rightarrow>
          if pep440_version = pep440_version_ref then test_loop rest
          else Inl (AssertionError
                 (''Failure for '' @ semtag_version @ ''. Got '' @ pep440_version
                  @ ''. Expected '' @ pep440_version_ref @ ''.'')))"

definition test_create_pep440_version :: "error + string" where
  "test_create_pep440_version =
     (case test_loop semtag_version_to_pep440_version of
        Inl e \<Rightarrow> Inl e
      | Inr _ \<Rightarrow> Inr ''Test passed.'')"

text \<open>
  The \<^verbatim>\<open>__main__\<close> block, as a function of \<^verbatim>\<open>sys.argv\<close>. The process ends in one of
  three ways: a line was printed, \<^verbatim>\<open>sys.exit\<close> was called with a message, or an
  exception was not caught. The interpreter gives the exit status: 0 after a normal end,
  1 after \<^verbatim>\<open>sys.exit\<close> with a message (which goes to standard error) and after an
  uncaught exception.
\<close>

datatype outcome =
    Printed string
  | SysExit string
  | Uncaught error

fun exit_status :: "outcome \<Rightarrow> nat" where
  "exit_status (Printed _) = 0"
| "exit_status (SysExit _) = 1"
| "exit_status (Uncaught _) = 1"

definition main :: "string list \<Rightarrow> outcome" where
  "main argv =
     (let n_argv = int (length argv) in
      if n_argv \<noteq> 2
      then SysExit (''Error: Expected 1 argument, got '' @ str_int (n_argv - 1) @ ''.'')
      else
        let arg = argv ! 1 in
        if arg = ''test''
        then (case test_create_pep440_version of
                Inl e \<Rightarrow> Uncaught e
              | Inr line \<Rightarrow> Printed line)
        else (case create_pep440_version arg of
                Inl e \<Rightarrow> Uncaught e
              | Inr pep440_version \<Rightarrow> Printed pep440_version))"

section \<open>What a match consumes\<close>

text \<open>
  The words a pattern can consume, without regard to order or captures; used to state
  what the matcher's results are.
\<close>

primrec lang :: "regex \<Rightarrow> string set" where
  "lang (Chr c) = {[c]}"
| "lang (Cls rs) = {[x] |x. in_class rs x}"
| "lang Digit = {[x] |x. in_range (CHR ''0'') (CHR ''9'') x}"
| "lang (Seq a b) = {u @ v |u v. u \<in> lang a \<and> v \<in> lang b}"
| "lang (Alt a b) = lang a \<union> lang b"
| "lang (Star a) = {concat ws |ws. set ws \<subseteq> lang a}"
| "lang (Opt a) = insert [] (lang a)"
| "lang (Grp n a) = lang a"
| "lang Bol = {[]}"
| "lang Eol = {[]}"

primrec no_groups :: "regex \<Rightarrow> bool" where
  "no_groups (Chr c) = True"
| "no_groups (Cls rs) = True"
| "no_groups Digit = True"
| "no_groups (Seq a b) = (no_groups a \<and> no_groups b)"
| "no_groups (Alt a b) = (no_groups a \<and> no_groups b)"
| "no_groups (Star a) = no_groups a"
| "no_groups (Opt a) = no_groups a"
| "no_groups (Grp n a) = False"
| "no_groups Bol = True"
| "no_groups Eol = True"

text \<open>State \<open>x\<close> is state \<open>st\<close> after the word \<open>w\<close> has been read.\<close>

definition consumed :: "mstate \<Rightarrow> mstate \<Rightarrow> string \<Rightarrow> bool" where
  "consumed st x w = (fst (snd st) = w @ fst (snd x) \<and> fst x = fst st + length w)"

text \<open>An optional component behind its marker character, and the group it leaves.\<close>

fun opt_part :: "char \<Rightarrow> string option \<Rightarrow> string" where
  "opt_part c None = []"
| "opt_part c (Some w) = c # w"

fun opt_entry :: "string \<Rightarrow> string option \<Rightarrow> groups" where
  "opt_entry n None = []"
| "opt_entry n (Some w) = [(n, w)]"

section \<open>The output form of the specification\<close>

text \<open>
  The specification gives the output grammar
  \<^verbatim>\<open><major>.<minor>.<patch>[{a|b|rc}<N>][.dev<N>][+<local-label>]\<close>.
  A number is a non-empty string of decimal digits. The specification does not say which
  strings are local labels, so that is a parameter.
\<close>

definition is_digit :: "char \<Rightarrow> bool" where
  "is_digit c = in_range (CHR ''0'') (CHR ''9'') c"




section \<open>The substring test\<close>

lemma take_length_eq: "take (length sub) xs = sub \<longleftrightarrow> (\<exists>ss. xs = sub @ ss)"
  by (metis append_eq_conv_conj append_take_drop_id)

lemma str_contains_iff: "str_contains sub s \<longleftrightarrow> (\<exists>ps ss. s = ps @ sub @ ss)"
proof (induction s)
  case Nil
  then show ?case by auto
next
  case (Cons c cs)
  show ?case
  proof
    assume "str_contains sub (c # cs)"
    then consider "take (length sub) (c # cs) = sub" | "str_contains sub cs" by auto
    then show "\<exists>ps ss. c # cs = ps @ sub @ ss"
    proof cases
      case 1
      then obtain ss where "c # cs = sub @ ss" using take_length_eq by blast
      then have "c # cs = [] @ sub @ ss" by simp
      then show ?thesis by blast
    next
      case 2
      then obtain ps ss where "cs = ps @ sub @ ss" using Cons.IH by blast
      then have "c # cs = (c # ps) @ sub @ ss" by simp
      then show ?thesis by blast
    qed
  next
    assume "\<exists>ps ss. c # cs = ps @ sub @ ss"
    then obtain ps ss where eq: "c # cs = ps @ sub @ ss" by blast
    show "str_contains sub (c # cs)"
    proof (cases ps)
      case Nil
      then have "take (length sub) (c # cs) = sub" using eq take_length_eq by (metis append_Nil)
      then show ?thesis by simp
    next
      case (Cons p ps')
      then have "cs = ps' @ sub @ ss" using eq by simp
      then have "str_contains sub cs" using Cons.IH by blast
      then show ?thesis by simp
    qed
  qed
qed

section \<open>What the matcher returns\<close>

lemma step_char_mem:
  "(j, s', g') \<in> set (step_char P (i, s, g)) \<longleftrightarrow> (\<exists>x. s = x # s' \<and> P x \<and> j = Suc i \<and> g' = g)"
  by (cases s) auto

lemma star_step: "u \<in> lang a \<Longrightarrow> v \<in> lang (Star a) \<Longrightarrow> u @ v \<in> lang (Star a)"
proof -
  assume u: "u \<in> lang a" and "v \<in> lang (Star a)"
  then obtain ws where "v = concat ws" "set ws \<subseteq> lang a" by auto
  then have "u @ v = concat (u # ws)" "set (u # ws) \<subseteq> lang a" using u by auto
  then show ?thesis by (simp only: lang.simps) blast
qed


lemma consumed_refl: "consumed st st []"
  by (simp add: consumed_def)

lemma consumed_trans: "consumed st m u \<Longrightarrow> consumed m x v \<Longrightarrow> consumed st x (u @ v)"
  by (simp add: consumed_def)

lemma step_char_consumed:
  "x \<in> set (step_char P st) \<Longrightarrow> \<exists>c. P c \<and> consumed st x [c] \<and> snd (snd x) = snd (snd st)"
  by (cases "(P, st)" rule: step_char.cases) (auto simp: consumed_def split: if_splits)

lemmas ms_Star = ms.simps(7)
declare ms.simps(7) [simp del]

lemma ms_Star_mem:
  "x \<in> set (ms (Star a) (i, s, g)) \<Longrightarrow>
     x = (i, s, g) \<or>
     (\<exists>m \<in> set (ms a (i, s, g)). length (fst (snd m)) < length s
          \<and> x \<in> set (ms (Star a) m))"
  by (subst (asm) ms_Star) (auto split: if_splits)

lemma ms_sound: "x \<in> set (ms r st) \<Longrightarrow> \<exists>w. consumed st x w \<and> w \<in> lang r"
proof (induction r st arbitrary: x rule: ms.induct)
  case (1 c st)
  then show ?case using step_char_consumed by fastforce
next
  case (2 rs st)
  then show ?case using step_char_consumed by fastforce
next
  case (3 st)
  then show ?case using step_char_consumed by fastforce
next
  case (4 a b st)
  from "4.prems" obtain m where m: "m \<in> set (ms a st)" and x: "x \<in> set (ms b m)"
    by auto
  from "4.IH"(1)[OF m] obtain u where u: "consumed st m u" "u \<in> lang a" by blast
  from "4.IH"(2)[OF m x] obtain v where v: "consumed m x v" "v \<in> lang b" by blast
  have "consumed st x (u @ v)" using u(1) v(1) by (rule consumed_trans)
  moreover have "u @ v \<in> lang (Seq a b)" using u(2) v(2) by auto
  ultimately show ?case by blast
next
  case (5 a b st)
  then show ?case by fastforce
next
  case (6 a st)
  from "6.prems" consider "x \<in> set (ms a st)" | "x = st" by auto
  then show ?case
  proof cases
    case 1
    with "6.IH" show ?thesis by fastforce
  next
    case 2
    have "consumed st st []" by (rule consumed_refl)
    moreover have "[] \<in> lang (Opt a)" by simp
    ultimately show ?thesis using 2 by blast
  qed
next
  case (7 a i s g)
  from ms_Star_mem[OF "7.prems"] consider
    (stop) "x = (i, s, g)"
    | (iter) m where "m \<in> set (ms a (i, s, g))" "length (fst (snd m)) < length s"
        "x \<in> set (ms (Star a) m)"
    by blast
  then show ?case
  proof cases
    case iter
    obtain k t h where mk: "m = (k, t, h)" by (cases m)
    from "7.IH"(1)[OF iter(1)] obtain u where u: "consumed (i, s, g) m u" "u \<in> lang a" by blast
    have lt: "length t < length s" using iter(2) mk by simp
    have xin: "x \<in> set (ms (Star a) (k, t, h))" using iter(3) unfolding mk .
    from "7.IH"(2)[OF iter(1) mk[symmetric] refl lt xin]
    obtain v where v: "consumed m x v" "v \<in> lang (Star a)" unfolding mk by blast
    have "consumed (i, s, g) x (u @ v)" using u(1) v(1) by (rule consumed_trans)
    moreover have "u @ v \<in> lang (Star a)" using u(2) v(2) by (rule star_step)
    ultimately show ?thesis by blast
  next
    case stop
    have "[] \<in> lang (Star a)" by (simp, rule exI[of _ "[]"], simp)
    with stop show ?thesis using consumed_refl by blast
  qed
next
  case (8 n a i s g)
  then show ?case by (fastforce simp: consumed_def)
next
  case (9 i s g)
  then show ?case using consumed_refl by (auto split: if_splits)
next
  case (10 i s g)
  then show ?case using consumed_refl by (auto split: if_splits)
qed

lemma ms_no_groups:
  "no_groups r \<Longrightarrow> x \<in> set (ms r st) \<Longrightarrow> snd (snd x) = snd (snd st)"
proof (induction r st arbitrary: x rule: ms.induct)
  case (4 a b st)
  from "4.prems" obtain m where m: "m \<in> set (ms a st)" and x: "x \<in> set (ms b m)"
    by auto
  from "4.IH"(1)[OF _ m] "4.prems"(1) have "snd (snd m) = snd (snd st)" by simp
  moreover from "4.IH"(2)[OF m _ x] "4.prems"(1) have "snd (snd x) = snd (snd m)" by simp
  ultimately show ?case by simp
next
  case (7 a i s g)
  from ms_Star_mem[OF "7.prems"(2)] consider
    (stop) "x = (i, s, g)"
    | (iter) m where "m \<in> set (ms a (i, s, g))" "length (fst (snd m)) < length s"
        "x \<in> set (ms (Star a) m)"
    by blast
  then show ?case
  proof cases
    case iter
    obtain k t h where mk: "m = (k, t, h)" by (cases m)
    from "7.IH"(1)[OF _ iter(1)] "7.prems"(1) have "snd (snd m) = g" by simp
    moreover have lt: "length t < length s" using iter(2) mk by simp
    moreover have xin: "x \<in> set (ms (Star a) (k, t, h))" using iter(3) unfolding mk .
    moreover from "7.IH"(2)[OF iter(1) mk[symmetric] refl lt "7.prems"(1) xin]
    have "snd (snd x) = snd (snd m)" unfolding mk .
    ultimately show ?thesis by simp
  next
    case stop
    then show ?thesis by simp
  qed
next
  case (1 c st)
  then show ?case using step_char_consumed by fastforce
next
  case (2 rs st)
  then show ?case using step_char_consumed by fastforce
next
  case (3 st)
  then show ?case using step_char_consumed by fastforce
qed (auto split: if_splits)


lemma ms_Chr: "x \<in> set (ms (Chr c) (i, s, g)) \<Longrightarrow> \<exists>s'. s = c # s' \<and> x = (Suc i, s', g)"
  by (cases s) (auto split: if_splits)

lemma ms_Seq: "x \<in> set (ms (Seq a b) st) \<Longrightarrow> \<exists>m \<in> set (ms a st). x \<in> set (ms b m)"
  by auto

lemma ms_Grp_plain:
  assumes "no_groups a" "x \<in> set (ms (Grp n a) (i, s, g))"
  shows "\<exists>w s'. w \<in> lang a \<and> s = w @ s' \<and> x = (i + length w, s', (n, w) # g)"
proof -
  from assms(2) obtain j s' g' where m: "(j, s', g') \<in> set (ms a (i, s, g))"
    and x: "x = (j, s', (n, take (length s - length s') s) # g')"
    by auto
  from ms_sound[OF m] obtain w where w: "consumed (i, s, g) (j, s', g') w" "w \<in> lang a" by blast
  from ms_no_groups[OF assms(1) m] have g: "g' = g" by simp
  from w(1) have s: "s = w @ s'" and j: "j = i + length w" by (simp_all add: consumed_def)
  have "take (length s - length s') s = w" using s by simp
  with x g s j w(2) show ?thesis by blast
qed

lemma ms_opt_grp:
  assumes "no_groups a" "x \<in> set (ms (Opt (Seq (Chr c) (Grp n a))) (i, s, g))"
  shows "\<exists>v s'. s = opt_part c v @ s' \<and> (\<forall>w. v = Some w \<longrightarrow> w \<in> lang a)
            \<and> x = (i + length (opt_part c v), s', opt_entry n v @ g)"
proof -
  from assms(2) consider (absent) "x = (i, s, g)"
    | (present) "x \<in> set (ms (Seq (Chr c) (Grp n a)) (i, s, g))"
    by auto
  then show ?thesis
  proof cases
    case absent
    then have "s = opt_part c None @ s" "x = (i + length (opt_part c None), s, opt_entry n None @ g)"
      by simp_all
    then show ?thesis by blast
  next
    case present
    from ms_Seq[OF present] obtain m where m: "m \<in> set (ms (Chr c) (i, s, g))"
      and x: "x \<in> set (ms (Grp n a) m)" by blast
    from ms_Chr[OF m] obtain s1 where s1: "s = c # s1" "m = (Suc i, s1, g)" by blast
    from ms_Grp_plain[OF assms(1) x[unfolded s1(2)]]
    obtain w s' where w: "w \<in> lang a" "s1 = w @ s'" "x = (Suc i + length w, s', (n, w) # g)"
      by blast
    have "s = opt_part c (Some w) @ s'" using s1(1) w(2) by simp
    moreover have "x = (i + length (opt_part c (Some w)), s', opt_entry n (Some w) @ g)"
      using w(3) by simp
    moreover have "\<forall>u. Some w = Some u \<longrightarrow> u \<in> lang a" using w(1) by simp
    ultimately show ?thesis by blast
  qed
qed

lemma ms_Eol: "x \<in> set (ms Eol (i, s, g)) \<Longrightarrow> x = (i, s, g) \<and> (s = [] \<or> s = [CHR 0x0A])"
  by (auto split: if_splits)

lemma ms_Bol: "x \<in> set (ms Bol (i, s, g)) \<Longrightarrow> x = (i, s, g)"
  by (auto split: if_splits)

lemma no_groups_bodies [simp]:
  "no_groups numeric_id" "no_groups prerelease_body" "no_groups build_body"
  by (simp_all add: numeric_id_def prerelease_body_def build_body_def prerelease_id_def build_id_def)

lemma semver_match_shape:
  assumes "re_match semver_pattern s = Some G"
  shows "\<exists>maj mi pa pre bm tl.
     s = ''v'' @ maj @ ''.'' @ mi @ ''.'' @ pa @ opt_part (CHR ''-'') pre
         @ opt_part (CHR ''+'') bm @ tl
     \<and> (tl = [] \<or> tl = [CHR 0x0A])
     \<and> maj \<in> lang numeric_id \<and> mi \<in> lang numeric_id \<and> pa \<in> lang numeric_id
     \<and> (\<forall>p. pre = Some p \<longrightarrow> p \<in> lang prerelease_body)
     \<and> (\<forall>b. bm = Some b \<longrightarrow> b \<in> lang build_body)
     \<and> G = opt_entry ''buildmetadata'' bm @ opt_entry ''prerelease'' pre
            @ [(''patch'', pa), (''minor'', mi), (''major'', maj)]"
proof -
  from assms obtain i r xs where "ms semver_pattern (0, s, []) = (i, r, G) # xs"
    by (auto simp: re_match_def split: list.splits)
  then have x: "(i, r, G) \<in> set (ms semver_pattern (0, s, []))" by simp
  from ms_Seq[OF x[unfolded semver_pattern_def]] obtain m0 where
    m0: "m0 \<in> set (ms Bol (0, s, []))" and x0: "(i, r, G) \<in> set (ms
       (Seq (Chr (CHR ''v''))
       (Seq (Grp ''major'' numeric_id) (Seq (Chr (CHR ''.''))
       (Seq (Grp ''minor'' numeric_id) (Seq (Chr (CHR ''.''))
       (Seq (Grp ''patch'' numeric_id)
       (Seq (Opt (Seq (Chr (CHR ''-'')) (Grp ''prerelease'' prerelease_body)))
       (Seq (Opt (Seq (Chr (CHR ''+'')) (Grp ''buildmetadata'' build_body)))
        Eol)))))))) m0)" by blast
  have m0': "m0 = (0, s, [])" using ms_Bol[OF m0] .
  from ms_Seq[OF x0] obtain m1 where m1: "m1 \<in> set (ms (Chr (CHR ''v'')) m0)"
    and x1: "(i, r, G) \<in> set (ms
       (Seq (Grp ''major'' numeric_id) (Seq (Chr (CHR ''.''))
       (Seq (Grp ''minor'' numeric_id) (Seq (Chr (CHR ''.''))
       (Seq (Grp ''patch'' numeric_id)
       (Seq (Opt (Seq (Chr (CHR ''-'')) (Grp ''prerelease'' prerelease_body)))
       (Seq (Opt (Seq (Chr (CHR ''+'')) (Grp ''buildmetadata'' build_body)))
        Eol))))))) m1)" by blast
  from ms_Chr[OF m1[unfolded m0']] obtain s1 where s1: "s = CHR ''v'' # s1" "m1 = (Suc 0, s1, [])"
    by blast
  from ms_Seq[OF x1] obtain m2 where m2: "m2 \<in> set (ms (Grp ''major'' numeric_id) m1)"
    and x2: "(i, r, G) \<in> set (ms
       (Seq (Chr (CHR ''.''))
       (Seq (Grp ''minor'' numeric_id) (Seq (Chr (CHR ''.''))
       (Seq (Grp ''patch'' numeric_id)
       (Seq (Opt (Seq (Chr (CHR ''-'')) (Grp ''prerelease'' prerelease_body)))
       (Seq (Opt (Seq (Chr (CHR ''+'')) (Grp ''buildmetadata'' build_body)))
        Eol)))))) m2)" by blast
  from ms_Grp_plain[OF no_groups_bodies(1) m2[unfolded s1(2)]] obtain maj s2 where
    s2: "maj \<in> lang numeric_id" "s1 = maj @ s2" "m2 = (Suc 0 + length maj, s2, [(''major'', maj)])"
    by blast
  from ms_Seq[OF x2] obtain m3 where m3: "m3 \<in> set (ms (Chr (CHR ''.'')) m2)"
    and x3: "(i, r, G) \<in> set (ms
       (Seq (Grp ''minor'' numeric_id) (Seq (Chr (CHR ''.''))
       (Seq (Grp ''patch'' numeric_id)
       (Seq (Opt (Seq (Chr (CHR ''-'')) (Grp ''prerelease'' prerelease_body)))
       (Seq (Opt (Seq (Chr (CHR ''+'')) (Grp ''buildmetadata'' build_body)))
        Eol))))) m3)" by blast
  from ms_Chr[OF m3[unfolded s2(3)]] obtain s3 where
    s3: "s2 = CHR ''.'' # s3" "m3 = (Suc (Suc 0 + length maj), s3, [(''major'', maj)])"
    by blast
  from ms_Seq[OF x3] obtain m4 where m4: "m4 \<in> set (ms (Grp ''minor'' numeric_id) m3)"
    and x4: "(i, r, G) \<in> set (ms
       (Seq (Chr (CHR ''.''))
       (Seq (Grp ''patch'' numeric_id)
       (Seq (Opt (Seq (Chr (CHR ''-'')) (Grp ''prerelease'' prerelease_body)))
       (Seq (Opt (Seq (Chr (CHR ''+'')) (Grp ''buildmetadata'' build_body)))
        Eol)))) m4)" by blast
  from ms_Grp_plain[OF no_groups_bodies(1) m4[unfolded s3(2)]] obtain mi s4 where
    s4: "mi \<in> lang numeric_id" "s3 = mi @ s4"
        "m4 = (Suc (Suc 0 + length maj) + length mi, s4, [(''minor'', mi), (''major'', maj)])"
    by blast
  from ms_Seq[OF x4] obtain m5 where m5: "m5 \<in> set (ms (Chr (CHR ''.'')) m4)"
    and x5: "(i, r, G) \<in> set (ms
       (Seq (Grp ''patch'' numeric_id)
       (Seq (Opt (Seq (Chr (CHR ''-'')) (Grp ''prerelease'' prerelease_body)))
       (Seq (Opt (Seq (Chr (CHR ''+'')) (Grp ''buildmetadata'' build_body)))
        Eol))) m5)" by blast
  from ms_Chr[OF m5[unfolded s4(3)]] obtain s5 where
    s5: "s4 = CHR ''.'' # s5"
        "m5 = (Suc (Suc (Suc 0 + length maj) + length mi), s5, [(''minor'', mi), (''major'', maj)])"
    by blast
  from ms_Seq[OF x5] obtain m6 where m6: "m6 \<in> set (ms (Grp ''patch'' numeric_id) m5)"
    and x6: "(i, r, G) \<in> set (ms
       (Seq (Opt (Seq (Chr (CHR ''-'')) (Grp ''prerelease'' prerelease_body)))
       (Seq (Opt (Seq (Chr (CHR ''+'')) (Grp ''buildmetadata'' build_body)))
        Eol)) m6)" by blast
  from ms_Grp_plain[OF no_groups_bodies(1) m6[unfolded s5(2)]] obtain pa s6 where
    s6: "pa \<in> lang numeric_id" "s5 = pa @ s6"
        "m6 = (Suc (Suc (Suc 0 + length maj) + length mi) + length pa, s6,
               [(''patch'', pa), (''minor'', mi), (''major'', maj)])"
    by blast
  from ms_Seq[OF x6] obtain m7 where
    m7: "m7 \<in> set (ms (Opt (Seq (Chr (CHR ''-'')) (Grp ''prerelease'' prerelease_body))) m6)"
    and x7: "(i, r, G) \<in> set (ms
       (Seq (Opt (Seq (Chr (CHR ''+'')) (Grp ''buildmetadata'' build_body))) Eol) m7)" by blast
  from ms_opt_grp[OF no_groups_bodies(2) m7[unfolded s6(3)]] obtain pre s7 where
    s7: "s6 = opt_part (CHR ''-'') pre @ s7" "\<forall>p. pre = Some p \<longrightarrow> p \<in> lang prerelease_body"
        "m7 = (Suc (Suc (Suc 0 + length maj) + length mi) + length pa
                 + length (opt_part (CHR ''-'') pre), s7,
               opt_entry ''prerelease'' pre @ [(''patch'', pa), (''minor'', mi), (''major'', maj)])"
    by blast
  from ms_Seq[OF x7] obtain m8 where
    m8: "m8 \<in> set (ms (Opt (Seq (Chr (CHR ''+'')) (Grp ''buildmetadata'' build_body))) m7)"
    and x8: "(i, r, G) \<in> set (ms Eol m8)" by blast
  from ms_opt_grp[OF no_groups_bodies(3) m8[unfolded s7(3)]] obtain bm s8 where
    s8: "s7 = opt_part (CHR ''+'') bm @ s8" "\<forall>b. bm = Some b \<longrightarrow> b \<in> lang build_body"
        "m8 = (Suc (Suc (Suc 0 + length maj) + length mi) + length pa
                 + length (opt_part (CHR ''-'') pre) + length (opt_part (CHR ''+'') bm), s8,
               opt_entry ''buildmetadata'' bm @ opt_entry ''prerelease'' pre
                 @ [(''patch'', pa), (''minor'', mi), (''major'', maj)])"
    by blast
  from ms_Eol[OF x8[unfolded s8(3)]] have
    fin: "G = opt_entry ''buildmetadata'' bm @ opt_entry ''prerelease'' pre
                 @ [(''patch'', pa), (''minor'', mi), (''major'', maj)]"
         "s8 = [] \<or> s8 = [CHR 0x0A]"
    by simp_all
  have "s = ''v'' @ maj @ ''.'' @ mi @ ''.'' @ pa @ opt_part (CHR ''-'') pre
         @ opt_part (CHR ''+'') bm @ s8"
    using s1(1) s2(2) s3(1) s4(2) s5(1) s6(2) s7(1) s8(1) by simp
  with fin s2(1) s4(1) s6(1) s7(2) s8(2) show ?thesis by blast
qed

section \<open>The groups of a match of the version pattern\<close>

lemma lang_numeric_id_nonempty: "w \<in> lang numeric_id \<Longrightarrow> w \<noteq> []"
  by (auto simp: numeric_id_def)

lemma lang_prerelease_id_nonempty: "w \<in> lang prerelease_id \<Longrightarrow> w \<noteq> []"
  by (auto simp: prerelease_id_def)

lemma lang_prerelease_body_nonempty: "w \<in> lang prerelease_body \<Longrightarrow> w \<noteq> []"
  using lang_prerelease_id_nonempty by (auto simp: prerelease_body_def)

lemma lang_build_body_nonempty: "w \<in> lang build_body \<Longrightarrow> w \<noteq> []"
  by (auto simp: build_body_def build_id_def)

lemma semver_match_groups:
  assumes "re_match semver_pattern s = Some G"
  shows "\<exists>maj mi pa.
     groupdict G ''major'' = Some maj \<and> groupdict G ''minor'' = Some mi
     \<and> groupdict G ''patch'' = Some pa
     \<and> maj \<in> lang numeric_id \<and> mi \<in> lang numeric_id \<and> pa \<in> lang numeric_id
     \<and> (\<forall>p. groupdict G ''prerelease'' = Some p \<longrightarrow> p \<in> lang prerelease_body)
     \<and> (\<forall>b. groupdict G ''buildmetadata'' = Some b \<longrightarrow> b \<in> lang build_body)"
proof -
  from semver_match_shape[OF assms] obtain maj mi pa pre bm where
    l: "maj \<in> lang numeric_id" "mi \<in> lang numeric_id" "pa \<in> lang numeric_id"
       "\<forall>p. pre = Some p \<longrightarrow> p \<in> lang prerelease_body"
       "\<forall>b. bm = Some b \<longrightarrow> b \<in> lang build_body"
    and G: "G = opt_entry ''buildmetadata'' bm @ opt_entry ''prerelease'' pre
            @ [(''patch'', pa), (''minor'', mi), (''major'', maj)]"
    by blast
  have "groupdict G ''major'' = Some maj" "groupdict G ''minor'' = Some mi"
       "groupdict G ''patch'' = Some pa" "groupdict G ''prerelease'' = pre"
       "groupdict G ''buildmetadata'' = bm"
    unfolding G groupdict_def by (cases bm; cases pre; simp)+
  with l show ?thesis by blast
qed

lemma create_on_match:
  assumes "re_match semver_pattern s = Some G"
    and "\<not> str_contains ''unstaged'' s" and "\<not> str_contains ''uncommitted'' s"
    and "groupdict G ''major'' = Some maj" "groupdict G ''minor'' = Some mi"
        "groupdict G ''patch'' = Some pa"
  shows "create_pep440_version s =
     (case get_prerelease_and_dev_segment (groupdict G) of
        Inl e \<Rightarrow> Inl e
      | Inr (p, d) \<Rightarrow> Inr (maj @ ''.'' @ mi @ ''.'' @ pa @ p @ d
                             @ get_local_version_label (groupdict G)))"
  using assms by (simp add: create_pep440_version_def split: sum.splits prod.splits)

lemma create_markers:
  assumes "str_contains ''unstaged'' s \<or> str_contains ''uncommitted'' s"
  shows "create_pep440_version s = Inl (ValueError
        ''Cannot create PEP440-compliant version identifier if there are uncommited or unstaged changes.'')"
  using assms by (simp add: create_pep440_version_def)

lemma create_error_on_match:
  assumes "re_match semver_pattern s = Some G"
    and "get_prerelease_and_dev_segment (groupdict G) = Inl (ValueError m)"
  shows "\<exists>msg. create_pep440_version s = Inl (ValueError msg)"
  using assms by (simp add: create_pep440_version_def)

section \<open>The branches of the conversion\<close>

lemma get_prerelease_bad_count:
  assumes "rd ''prerelease'' = Some pre" "pre \<noteq> []"
    "length (str_split (CHR ''.'') pre) \<notin> {2, 3}"
  shows "get_prerelease_and_dev_segment rd = raise_error pre"
  using assms by (simp add: get_prerelease_and_dev_segment_def Let_def)

lemma get_prerelease_cycle:
  assumes "rd ''prerelease'' = Some pre" "pre \<noteq> []"
    "str_split (CHR ''.'') pre = label # p1 # more" "length more \<le> 1"
    "(label, short) \<in> {(''alpha'', ''a''), (''beta'', ''b''), (''rc'', ''rc'')}"
  shows "get_prerelease_and_dev_segment rd =
           Inr (short @ p1, dev_segment_of (case more of [] \<Rightarrow> None | p2 # _ \<Rightarrow> Some p2))"
proof -
  have len: "length (str_split (CHR ''.'') pre) \<in> {2, 3}"
    using assms(3,4) by (cases more) auto
  have tab: "map_of prerelease_cycle_to_short_name label = Some short" "short \<noteq> []"
    using assms(5) by (auto simp: prerelease_cycle_to_short_name_def)
  show ?thesis
  proof (cases more)
    case Nil
    then show ?thesis
      using assms(1,2,3) tab by (simp add: get_prerelease_and_dev_segment_def Let_def)
  next
    case (Cons p2 rest)
    with assms(4) have "rest = []" by simp
    with Cons show ?thesis
      using assms(1,2,3) tab by (simp add: get_prerelease_and_dev_segment_def Let_def)
  qed
qed

lemma get_prerelease_dev:
  assumes "rd ''prerelease'' = Some pre" "pre \<noteq> []"
    "str_split (CHR ''.'') pre = ''dev'' # p1 # more" "length more \<le> 1"
  shows "get_prerelease_and_dev_segment rd =
           (if more = [] then Inr ('''', ''.dev'' @ p1) else raise_error pre)"
proof -
  have tab: "map_of prerelease_cycle_to_short_name ''dev'' = None"
    by (simp add: prerelease_cycle_to_short_name_def)
  show ?thesis
  proof (cases more)
    case Nil
    then show ?thesis
      using assms(1,2,3) tab by (simp add: get_prerelease_and_dev_segment_def dev_or_error_def Let_def)
  next
    case (Cons p2 rest)
    with assms(4) have "rest = []" by simp
    with Cons show ?thesis
      using assms(1,2,3) tab by (simp add: get_prerelease_and_dev_segment_def dev_or_error_def Let_def)
  qed
qed

lemma get_prerelease_unknown:
  assumes "rd ''prerelease'' = Some pre" "pre \<noteq> []"
    "str_split (CHR ''.'') pre = p0 # rest"
    "p0 \<notin> {''alpha'', ''beta'', ''rc'', ''dev''}"
  shows "get_prerelease_and_dev_segment rd = raise_error pre"
proof -
  have tab: "map_of prerelease_cycle_to_short_name p0 = None"
    using assms(4) by (simp add: prerelease_cycle_to_short_name_def)
  have "p0 \<noteq> ''dev''" using assms(4) by simp
  then show ?thesis
    using assms(1,2,3) tab
    by (simp add: get_prerelease_and_dev_segment_def dev_or_error_def Let_def)
qed

lemma prerelease_group_nonempty:
  assumes "re_match semver_pattern s = Some G" "groupdict G ''prerelease'' = Some pre"
  shows "pre \<noteq> []"
  using semver_match_groups[OF assms(1)] assms(2) lang_prerelease_body_nonempty by blast

lemma buildmetadata_group_nonempty:
  assumes "re_match semver_pattern s = Some G" "groupdict G ''buildmetadata'' = Some bm"
  shows "bm \<noteq> []"
  using semver_match_groups[OF assms(1)] assms(2) lang_build_body_nonempty by blast

lemma create_raise_error:
  assumes "re_match semver_pattern s = Some G"
    and "get_prerelease_and_dev_segment (groupdict G) = raise_error pre"
  shows "\<exists>msg. create_pep440_version s = Inl (ValueError msg)"
  using assms by (simp add: create_pep440_version_def raise_error_def)

lemma str_split_nonempty: "str_split sep s \<noteq> []"
  by (induction s) (auto split: list.splits)

lemma str_partition_split:
  "str_split sep s = seg # later \<Longrightarrow> fst (str_partition sep s) = seg"
proof (induction s arbitrary: seg later)
  case Nil
  then show ?case by simp
next
  case (Cons c cs)
  show ?case
  proof (cases "c = sep")
    case True
    with Cons.prems show ?thesis by simp
  next
    case False
    obtain w ws where ws: "str_split sep cs = w # ws"
      using str_split_nonempty[of sep cs] by (cases "str_split sep cs") auto
    from Cons.IH[OF ws] have "fst (str_partition sep cs) = w" .
    moreover from Cons.prems False ws have "seg = c # w" by simp
    ultimately show ?thesis using False by (auto split: prod.splits)
  qed
qed

lemma local_label_first_segment:
  assumes "rd ''buildmetadata'' = Some bm" "bm \<noteq> []" "str_split (CHR ''.'') bm = seg # later"
  shows "get_local_version_label rd = ''+'' @ seg"
  using assms str_partition_split[OF assms(3)]
  by (simp add: get_local_version_label_def Let_def)

lemma create_Inr_no_markers:
  assumes "create_pep440_version s = Inr out"
  shows "\<not> str_contains ''unstaged'' s" "\<not> str_contains ''uncommitted'' s"
  using assms by (auto simp: create_pep440_version_def split: if_splits)

lemma create_no_match:
  assumes "\<not> str_contains ''unstaged'' s" "\<not> str_contains ''uncommitted'' s"
    and "re_match semver_pattern s = None"
  shows "create_pep440_version s = Inl AttributeError"
  using assms by (simp add: create_pep440_version_def)

section \<open>The self-test table\<close>

lemma table_row_1:
  "create_pep440_version
     ''v0.14.0-alpha.1.2+f0e563586.feature-MLB-2000-developer-create-python-compatibl''
   = Inr ''0.14.0a1.dev2+f0e563586''"
  by code_simp

lemma table_row_2: "create_pep440_version ''v0.14.0-alpha.1.2'' = Inr ''0.14.0a1.dev2''"
  by code_simp

lemma table_row_3: "create_pep440_version ''v0.14.0-alpha.1'' = Inr ''0.14.0a1''"
  by code_simp

lemma table_row_4: "create_pep440_version ''v0.14.0-beta.1'' = Inr ''0.14.0b1''"
  by code_simp

lemma table_row_5: "create_pep440_version ''v0.14.0-rc.1'' = Inr ''0.14.0rc1''"
  by code_simp

lemma table_row_6: "create_pep440_version ''v0.13.1-dev.1'' = Inr ''0.13.1.dev1''"
  by code_simp

lemma table_row_7: "create_pep440_version ''v0.14.0'' = Inr ''0.14.0''"
  by code_simp

lemma table_row_8: "create_pep440_version ''v0.15.0'' = Inr ''0.15.0''"
  by code_simp

lemma table_row_9: "create_pep440_version ''v1.15.0'' = Inr ''1.15.0''"
  by code_simp

text \<open>
  C1: on each of the nine inputs of the round-trip table the conversion returns exactly
  the listed PEP 440 string.
\<close>

theorem C1_round_trip_table:
  "create_pep440_version
     ''v0.14.0-alpha.1.2+f0e563586.feature-MLB-2000-developer-create-python-compatibl''
     = Inr ''0.14.0a1.dev2+f0e563586''
   \<and> create_pep440_version ''v0.14.0-alpha.1.2'' = Inr ''0.14.0a1.dev2''
   \<and> create_pep440_version ''v0.14.0-alpha.1'' = Inr ''0.14.0a1''
   \<and> create_pep440_version ''v0.14.0-beta.1'' = Inr ''0.14.0b1''
   \<and> create_pep440_version ''v0.14.0-rc.1'' = Inr ''0.14.0rc1''
   \<and> create_pep440_version ''v0.13.1-dev.1'' = Inr ''0.13.1.dev1''
   \<and> create_pep440_version ''v0.14.0'' = Inr ''0.14.0''
   \<and> create_pep440_version ''v0.15.0'' = Inr ''0.15.0''
   \<and> create_pep440_version ''v1.15.0'' = Inr ''1.15.0''"
  by (intro conjI table_row_1 table_row_2 table_row_3 table_row_4 table_row_5
        table_row_6 table_row_7 table_row_8 table_row_9)

section \<open>Rejected inputs\<close>

text \<open>
  C3: an input that contains \<^verbatim>\<open>unstaged\<close> or \<^verbatim>\<open>uncommitted\<close> anywhere is rejected
  with \<^verbatim>\<open>ValueError\<close>, whatever the rest of the string is.
\<close>

theorem C3_markers_rejected:
  assumes "s = ps @ ''unstaged'' @ ss \<or> s = ps @ ''uncommitted'' @ ss"
  shows "create_pep440_version s = Inl (ValueError
    ''Cannot create PEP440-compliant version identifier if there are uncommited or unstaged changes.'')"
proof -
  from assms have "str_contains ''unstaged'' s \<or> str_contains ''uncommitted'' s"
    unfolding str_contains_iff by blast
  then show ?thesis by (rule create_markers)
qed

lemma match_marked:
  "re_match semver_pattern ''v1.0.0-alpha.1+unstaged'' =
     Some [(''buildmetadata'', ''unstaged''), (''prerelease'', ''alpha.1''),
           (''patch'', ''0''), (''minor'', ''0''), (''major'', ''1'')]"
  by code_simp

theorem C3_markers_rejected_witness:
  "''v1.0.0-alpha.1+unstaged'' = ''v1.0.0-alpha.1+'' @ ''unstaged'' @ []
   \<and> re_match semver_pattern ''v1.0.0-alpha.1+unstaged'' \<noteq> None
   \<and> create_pep440_version ''v1.0.0-alpha.1+unstaged'' = Inl (ValueError
    ''Cannot create PEP440-compliant version identifier if there are uncommited or unstaged changes.'')"
proof -
  have eq: "''v1.0.0-alpha.1+unstaged'' = ''v1.0.0-alpha.1+'' @ ''unstaged'' @ []
            \<or> ''v1.0.0-alpha.1+unstaged'' = ''v1.0.0-alpha.1+'' @ ''uncommitted'' @ []"
    by simp
  have "re_match semver_pattern ''v1.0.0-alpha.1+unstaged'' \<noteq> None"
    by (simp add: match_marked)
  with C3_markers_rejected[OF eq] show ?thesis by simp
qed

text \<open>
  C7: when the pattern matches and the prerelease, split at the dots, has a number of
  parts other than 2 and 3, the conversion ends with \<^verbatim>\<open>ValueError\<close>.
\<close>

theorem C7_part_count:
  assumes "re_match semver_pattern s = Some G"
    and "groupdict G ''prerelease'' = Some pre"
    and "length (str_split (CHR ''.'') pre) \<notin> {2, 3}"
  shows "\<exists>msg. create_pep440_version s = Inl (ValueError msg)"
proof -
  have ne: "pre \<noteq> []" using assms(1,2) by (rule prerelease_group_nonempty)
  have "get_prerelease_and_dev_segment (groupdict G) = raise_error pre"
    using assms(2) ne assms(3) by (rule get_prerelease_bad_count)
  with assms(1) show ?thesis by (rule create_raise_error)
qed

lemma match_one_part:
  "re_match semver_pattern ''v1.0.0-alpha'' =
     Some [(''prerelease'', ''alpha''), (''patch'', ''0''), (''minor'', ''0''), (''major'', ''1'')]"
  by code_simp

lemma match_four_parts:
  "re_match semver_pattern ''v1.0.0-alpha.1.2.3'' =
     Some [(''prerelease'', ''alpha.1.2.3''), (''patch'', ''0''), (''minor'', ''0''),
           (''major'', ''1'')]"
  by code_simp

theorem C7_part_count_witness:
  "str_split (CHR ''.'') ''alpha'' = [''alpha'']
   \<and> (\<exists>msg. create_pep440_version ''v1.0.0-alpha'' = Inl (ValueError msg))
   \<and> str_split (CHR ''.'') ''alpha.1.2.3'' = [''alpha'', ''1'', ''2'', ''3'']
   \<and> (\<exists>msg. create_pep440_version ''v1.0.0-alpha.1.2.3'' = Inl (ValueError msg))"
proof -
  have g1: "groupdict [(''prerelease'', ''alpha''), (''patch'', ''0''), (''minor'', ''0''),
             (''major'', ''1'')] ''prerelease'' = Some ''alpha''"
    by (simp add: groupdict_def)
  have s1: "str_split (CHR ''.'') ''alpha'' = [''alpha'']" by simp
  then have n1: "length (str_split (CHR ''.'') ''alpha'') \<notin> {2, 3}" by simp
  have g4: "groupdict [(''prerelease'', ''alpha.1.2.3''), (''patch'', ''0''), (''minor'', ''0''),
             (''major'', ''1'')] ''prerelease'' = Some ''alpha.1.2.3''"
    by (simp add: groupdict_def)
  have s4: "str_split (CHR ''.'') ''alpha.1.2.3'' = [''alpha'', ''1'', ''2'', ''3'']" by simp
  then have n4: "length (str_split (CHR ''.'') ''alpha.1.2.3'') \<notin> {2, 3}" by simp
  from C7_part_count[OF match_one_part g1 n1] C7_part_count[OF match_four_parts g4 n4] s1 s4
  show ?thesis by simp
qed

text \<open>
  C8: when the pattern matches and the first dot-separated part of the prerelease is none
  of \<^verbatim>\<open>alpha\<close>, \<^verbatim>\<open>beta\<close>, \<^verbatim>\<open>rc\<close> and \<^verbatim>\<open>dev\<close>, the conversion ends with
  \<^verbatim>\<open>ValueError\<close>.
\<close>

theorem C8_unknown_label:
  assumes "re_match semver_pattern s = Some G"
    and "groupdict G ''prerelease'' = Some pre"
    and "str_split (CHR ''.'') pre = p0 # rest"
    and "p0 \<notin> {''alpha'', ''beta'', ''rc'', ''dev''}"
  shows "\<exists>msg. create_pep440_version s = Inl (ValueError msg)"
proof -
  have ne: "pre \<noteq> []" using assms(1,2) by (rule prerelease_group_nonempty)
  have "get_prerelease_and_dev_segment (groupdict G) = raise_error pre"
    using assms(2) ne assms(3,4) by (rule get_prerelease_unknown)
  with assms(1) show ?thesis by (rule create_raise_error)
qed

lemma match_unknown_label:
  "re_match semver_pattern ''v1.0.0-foo.1'' =
     Some [(''prerelease'', ''foo.1''), (''patch'', ''0''), (''minor'', ''0''), (''major'', ''1'')]"
  by code_simp

theorem C8_unknown_label_witness:
  "re_match semver_pattern ''v1.0.0-foo.1'' =
     Some [(''prerelease'', ''foo.1''), (''patch'', ''0''), (''minor'', ''0''), (''major'', ''1'')]
   \<and> str_split (CHR ''.'') ''foo.1'' = [''foo'', ''1'']
   \<and> (\<exists>msg. create_pep440_version ''v1.0.0-foo.1'' = Inl (ValueError msg))"
proof -
  have g: "groupdict [(''prerelease'', ''foo.1''), (''patch'', ''0''), (''minor'', ''0''),
             (''major'', ''1'')] ''prerelease'' = Some ''foo.1''"
    by (simp add: groupdict_def)
  have sp: "str_split (CHR ''.'') ''foo.1'' = [''foo'', ''1'']" by simp
  have n: "''foo'' \<notin> {''alpha'', ''beta'', ''rc'', ''dev''}" by simp
  from C8_unknown_label[OF match_unknown_label g sp n] match_unknown_label sp
  show ?thesis by simp
qed

section \<open>The command line\<close>

text \<open>
  C9, as the code has it: when the number of arguments is not 1, the script calls
  \<^verbatim>\<open>sys.exit\<close> with the text \<^verbatim>\<open>Error: Expected 1 argument, got n.\<close>, where \<open>n\<close> is
  the number of arguments in decimal, and the exit status is not zero.
\<close>

theorem C9_argument_count:
  assumes "int (length argv) - 1 = n" and "n \<noteq> 1"
  shows "main argv = SysExit (''Error: '' @ ''Expected 1 argument, got '' @ str_int n @ ''.'')
         \<and> exit_status (main argv) \<noteq> 0"
  using assms by (auto simp: main_def Let_def)

theorem C9_argument_count_witness:
  "main [''create_pep440_version.py''] = SysExit ''Error: Expected 1 argument, got 0.''
   \<and> exit_status (main [''create_pep440_version.py'']) \<noteq> 0
   \<and> main [''create_pep440_version.py'', ''v1.0.0'', ''v2.0.0'']
       = SysExit ''Error: Expected 1 argument, got 2.''
   \<and> exit_status (main [''create_pep440_version.py'', ''v1.0.0'', ''v2.0.0'']) \<noteq> 0"
proof -
  have a: "int (length [''create_pep440_version.py'']) - 1 = 0" "(0::int) \<noteq> 1" by simp_all
  have b: "int (length [''create_pep440_version.py'', ''v1.0.0'', ''v2.0.0'']) - 1 = 2"
    "(2::int) \<noteq> 1" by simp_all
  have s: "str_int 0 = ''0''" "str_int 2 = ''2''" by (simp_all add: str_int_def digit_char_def)
  from C9_argument_count[OF a] C9_argument_count[OF b] s show ?thesis by simp
qed

text \<open>
  C9 as the specification words it fails: the text given to \<^verbatim>\<open>sys.exit\<close> starts with
  \<^verbatim>\<open>Error: \<close>, which the quoted diagnostic leaves out.
\<close>

theorem C9_message_counterexample:
  "main [''create_pep440_version.py''] = SysExit ''Error: Expected 1 argument, got 0.''
   \<and> main [''create_pep440_version.py''] \<noteq> SysExit ''Expected 1 argument, got 0.''"
  by code_simp

section \<open>Inputs the pattern does not match\<close>

text \<open>
  C2: on an input that the pattern does not match (here a version without the leading
  \<^verbatim>\<open>v\<close>), \<^verbatim>\<open>re.match\<close> returns \<^verbatim>\<open>None\<close> and the conversion ends with
  \<^verbatim>\<open>AttributeError\<close>, not with the \<^verbatim>\<open>ValueError\<close> of the other rejections.
\<close>

theorem C2_no_match_is_AttributeError:
  "re_match semver_pattern ''1.0.0'' = None
   \<and> create_pep440_version ''1.0.0'' = Inl AttributeError"
  by code_simp

lemma trailing_newline_accepted:
  "create_pep440_version (''v1.0.0'' @ [CHR 0x0A]) = Inr ''1.0.0''"
  by code_simp

section \<open>The local version label\<close>

text \<open>
  C4, as the code has it: when the pattern matches with a buildmetadata component, the
  input has neither marker and the prerelease is accepted, the output is the release,
  prerelease and development segments followed by \<^verbatim>\<open>+\<close> and the first dot-separated
  segment of buildmetadata; nothing of the later segments is appended.
\<close>

theorem C4_first_segment_only:
  assumes "re_match semver_pattern s = Some G"
    and "\<not> str_contains ''unstaged'' s" and "\<not> str_contains ''uncommitted'' s"
    and "get_prerelease_and_dev_segment (groupdict G) = Inr (pseg, dseg)"
    and "groupdict G ''buildmetadata'' = Some bm"
    and "str_split (CHR ''.'') bm = seg # later"
  shows "\<exists>maj mi pa.
     groupdict G ''major'' = Some maj \<and> groupdict G ''minor'' = Some mi
     \<and> groupdict G ''patch'' = Some pa
     \<and> create_pep440_version s =
         Inr (maj @ ''.'' @ mi @ ''.'' @ pa @ pseg @ dseg @ ''+'' @ seg)"
proof -
  from semver_match_groups[OF assms(1)] obtain maj mi pa where
    g: "groupdict G ''major'' = Some maj" "groupdict G ''minor'' = Some mi"
       "groupdict G ''patch'' = Some pa" by blast
  have ne: "bm \<noteq> []" using assms(1,5) by (rule buildmetadata_group_nonempty)
  have lab: "get_local_version_label (groupdict G) = ''+'' @ seg"
    using assms(5) ne assms(6) by (rule local_label_first_segment)
  from create_on_match[OF assms(1,2,3) g] assms(4) lab
  have "create_pep440_version s =
         Inr (maj @ ''.'' @ mi @ ''.'' @ pa @ pseg @ dseg @ ''+'' @ seg)" by simp
  with g show ?thesis by blast
qed

lemma match_two_build_segments:
  "re_match semver_pattern ''v1.0.0-rc.1+abc.def'' =
     Some [(''buildmetadata'', ''abc.def''), (''prerelease'', ''rc.1''), (''patch'', ''0''),
           (''minor'', ''0''), (''major'', ''1'')]"
  by code_simp

lemma no_markers_build:
  "\<not> str_contains ''unstaged'' ''v1.0.0-rc.1+abc.def''"
  "\<not> str_contains ''uncommitted'' ''v1.0.0-rc.1+abc.def''"
  by code_simp+

lemma segments_build:
  "get_prerelease_and_dev_segment
     (groupdict [(''buildmetadata'', ''abc.def''), (''prerelease'', ''rc.1''), (''patch'', ''0''),
           (''minor'', ''0''), (''major'', ''1'')]) = Inr (''rc1'', '''')"
  by code_simp

theorem C4_first_segment_only_witness:
  "str_split (CHR ''.'') ''abc.def'' = [''abc'', ''def'']
   \<and> create_pep440_version ''v1.0.0-rc.1+abc.def'' = Inr ''1.0.0rc1+abc''"
proof -
  let ?G = "[(''buildmetadata'', ''abc.def''), (''prerelease'', ''rc.1''), (''patch'', ''0''),
           (''minor'', ''0''), (''major'', ''1'')]"
  have g: "groupdict ?G ''buildmetadata'' = Some ''abc.def''" by (simp add: groupdict_def)
  have sp: "str_split (CHR ''.'') ''abc.def'' = [''abc'', ''def'']" by simp
  from C4_first_segment_only[OF match_two_build_segments no_markers_build segments_build g sp]
  obtain maj mi pa where
    m: "groupdict ?G ''major'' = Some maj" "groupdict ?G ''minor'' = Some mi"
       "groupdict ?G ''patch'' = Some pa"
    and r: "create_pep440_version ''v1.0.0-rc.1+abc.def'' =
         Inr (maj @ ''.'' @ mi @ ''.'' @ pa @ ''rc1'' @ '''' @ ''+'' @ ''abc'')"
    by blast
  from m have "maj = ''1''" "mi = ''0''" "pa = ''0''" by (simp_all add: groupdict_def)
  with r sp show ?thesis by simp
qed

text \<open>
  C4 as the specification words it fails: a later segment can occur in the output as
  part of another component, and an input with a rejected prerelease or with a marker has
  no output at all.
\<close>

theorem C4_later_segment_counterexample:
  "re_match semver_pattern ''v1.0.0+a.1'' =
     Some [(''buildmetadata'', ''a.1''), (''patch'', ''0''), (''minor'', ''0''), (''major'', ''1'')]
   \<and> str_split (CHR ''.'') ''a.1'' = [''a'', ''1'']
   \<and> create_pep440_version ''v1.0.0+a.1'' = Inr ''1.0.0+a''
   \<and> str_contains ''1'' ''1.0.0+a''
   \<and> re_match semver_pattern ''v1.0.0-x+a.b'' =
     Some [(''buildmetadata'', ''a.b''), (''prerelease'', ''x''), (''patch'', ''0''),
           (''minor'', ''0''), (''major'', ''1'')]
   \<and> create_pep440_version ''v1.0.0-x+a.b''
       = Inl (ValueError ''Do not know how to handle prerelease x.'')
   \<and> re_match semver_pattern ''v1.0.0+unstaged.b'' =
     Some [(''buildmetadata'', ''unstaged.b''), (''patch'', ''0''), (''minor'', ''0''),
           (''major'', ''1'')]
   \<and> create_pep440_version ''v1.0.0+unstaged.b'' = Inl (ValueError
    ''Cannot create PEP440-compliant version identifier if there are uncommited or unstaged changes.'')"
  by code_simp

section \<open>Prerelease and development segments\<close>

text \<open>
  C5, as the code has it: when the pattern matches, the input has neither marker, and the
  first part of the prerelease is \<^verbatim>\<open>alpha\<close>, \<^verbatim>\<open>beta\<close> or \<^verbatim>\<open>rc\<close> (short name
  \<^verbatim>\<open>a\<close>, \<^verbatim>\<open>b\<close>, \<^verbatim>\<open>rc\<close>): with two parts the output is the release, the short name
  and part 1, with no development segment before the local version label; with three
  parts \<^verbatim>\<open>.dev\<close> and part 2 come after part 1.
\<close>

theorem C5_release_cycle:
  assumes "re_match semver_pattern s = Some G"
    and "\<not> str_contains ''unstaged'' s" and "\<not> str_contains ''uncommitted'' s"
    and "groupdict G ''prerelease'' = Some pre"
    and "(label, short) \<in> {(''alpha'', ''a''), (''beta'', ''b''), (''rc'', ''rc'')}"
  shows "\<exists>maj mi pa.
     groupdict G ''major'' = Some maj \<and> groupdict G ''minor'' = Some mi
     \<and> groupdict G ''patch'' = Some pa
     \<and> (\<forall>p1. str_split (CHR ''.'') pre = [label, p1] \<longrightarrow>
           create_pep440_version s =
             Inr (maj @ ''.'' @ mi @ ''.'' @ pa @ short @ p1
                  @ get_local_version_label (groupdict G)))
     \<and> (\<forall>p1 p2. str_split (CHR ''.'') pre = [label, p1, p2] \<longrightarrow>
           create_pep440_version s =
             Inr (maj @ ''.'' @ mi @ ''.'' @ pa @ short @ p1 @ ''.dev'' @ p2
                  @ get_local_version_label (groupdict G)))"
proof -
  from semver_match_groups[OF assms(1)] obtain maj mi pa where
    g: "groupdict G ''major'' = Some maj" "groupdict G ''minor'' = Some mi"
       "groupdict G ''patch'' = Some pa" by blast
  have ne: "pre \<noteq> []" using assms(1,4) by (rule prerelease_group_nonempty)
  note c = create_on_match[OF assms(1,2,3) g]
  have two: "create_pep440_version s =
             Inr (maj @ ''.'' @ mi @ ''.'' @ pa @ short @ p1
                  @ get_local_version_label (groupdict G))"
    if sp: "str_split (CHR ''.'') pre = [label, p1]" for p1
  proof -
    have "length ([]::string list) \<le> 1" by simp
    from get_prerelease_cycle[where rd = "groupdict G" and more = "[]", OF assms(4) ne sp this assms(5)]
    show ?thesis using c by simp
  qed
  have three: "create_pep440_version s =
             Inr (maj @ ''.'' @ mi @ ''.'' @ pa @ short @ p1 @ ''.dev'' @ p2
                  @ get_local_version_label (groupdict G))"
    if sp: "str_split (CHR ''.'') pre = [label, p1, p2]" for p1 p2
  proof -
    have "length [p2] \<le> 1" by simp
    from get_prerelease_cycle[where rd = "groupdict G" and more = "[p2]", OF assms(4) ne sp this assms(5)]
    show ?thesis using c by simp
  qed
  from g two three show ?thesis by blast
qed

lemma match_rc_two: 
  "re_match semver_pattern ''v2.1.0-rc.3+abc'' =
     Some [(''buildmetadata'', ''abc''), (''prerelease'', ''rc.3''),
           (''patch'', ''0''), (''minor'', ''1''), (''major'', ''2'')]"
  by code_simp

lemma match_alpha_three: 
  "re_match semver_pattern ''v0.14.0-alpha.1.2'' =
     Some [(''prerelease'', ''alpha.1.2''),
           (''patch'', ''0''), (''minor'', ''14''), (''major'', ''0'')]"
  by code_simp

lemma no_markers_examples:
  "\<not> str_contains ''unstaged'' ''v2.1.0-rc.3+abc''"
  "\<not> str_contains ''uncommitted'' ''v2.1.0-rc.3+abc''"
  "\<not> str_contains ''unstaged'' ''v0.14.0-alpha.1.2''"
  "\<not> str_contains ''uncommitted'' ''v0.14.0-alpha.1.2''"
  by code_simp+

theorem C5_release_cycle_witness:
  "create_pep440_version ''v2.1.0-rc.3+abc'' = Inr ''2.1.0rc3+abc''
   \<and> create_pep440_version ''v0.14.0-alpha.1.2'' = Inr ''0.14.0a1.dev2''"
proof -
  have g1: "groupdict [(''buildmetadata'', ''abc''), (''prerelease'', ''rc.3''),
           (''patch'', ''0''), (''minor'', ''1''), (''major'', ''2'')] ''prerelease'' = Some ''rc.3''"
    by (simp add: groupdict_def)
  have l1: "(''rc'', ''rc'') \<in> {(''alpha'', ''a''), (''beta'', ''b''), (''rc'', ''rc'')}" by simp
  have g2: "groupdict [(''prerelease'', ''alpha.1.2''),
           (''patch'', ''0''), (''minor'', ''14''), (''major'', ''0'')] ''prerelease'' = Some ''alpha.1.2''"
    by (simp add: groupdict_def)
  have l2: "(''alpha'', ''a'') \<in> {(''alpha'', ''a''), (''beta'', ''b''), (''rc'', ''rc'')}" by simp
  have sp: "str_split (CHR ''.'') ''rc.3'' = [''rc'', ''3'']"
     "str_split (CHR ''.'') ''alpha.1.2'' = [''alpha'', ''1'', ''2'']" by simp_all
  have lab: "get_local_version_label (groupdict [(''buildmetadata'', ''abc''), (''prerelease'', ''rc.3''),
           (''patch'', ''0''), (''minor'', ''1''), (''major'', ''2'')]) = ''+abc''"
     "get_local_version_label (groupdict [(''prerelease'', ''alpha.1.2''),
           (''patch'', ''0''), (''minor'', ''14''), (''major'', ''0'')]) = ''''"
    by (simp_all add: groupdict_def get_local_version_label_def)
  from C5_release_cycle[OF match_rc_two no_markers_examples(1,2) g1 l1]
  obtain maj mi pa where
    m1: "groupdict [(''buildmetadata'', ''abc''), (''prerelease'', ''rc.3''),
           (''patch'', ''0''), (''minor'', ''1''), (''major'', ''2'')] ''major'' = Some maj"
        "groupdict [(''buildmetadata'', ''abc''), (''prerelease'', ''rc.3''),
           (''patch'', ''0''), (''minor'', ''1''), (''major'', ''2'')] ''minor'' = Some mi"
        "groupdict [(''buildmetadata'', ''abc''), (''prerelease'', ''rc.3''),
           (''patch'', ''0''), (''minor'', ''1''), (''major'', ''2'')] ''patch'' = Some pa"
    and r1: "\<forall>p1. str_split (CHR ''.'') ''rc.3'' = [''rc'', p1] \<longrightarrow>
           create_pep440_version ''v2.1.0-rc.3+abc'' =
             Inr (maj @ ''.'' @ mi @ ''.'' @ pa @ ''rc'' @ p1
                  @ get_local_version_label (groupdict [(''buildmetadata'', ''abc''),
                      (''prerelease'', ''rc.3''), (''patch'', ''0''), (''minor'', ''1''),
                      (''major'', ''2'')]))"
    by blast
  from m1 have v1: "maj = ''2''" "mi = ''1''" "pa = ''0''" by (simp_all add: groupdict_def)
  from r1 sp(1) have c1: "create_pep440_version ''v2.1.0-rc.3+abc'' = Inr ''2.1.0rc3+abc''"
    by (simp add: v1 lab(1))
  from C5_release_cycle[OF match_alpha_three no_markers_examples(3,4) g2 l2]
  obtain maj' mi' pa' where
    m2: "groupdict [(''prerelease'', ''alpha.1.2''),
           (''patch'', ''0''), (''minor'', ''14''), (''major'', ''0'')] ''major'' = Some maj'"
        "groupdict [(''prerelease'', ''alpha.1.2''),
           (''patch'', ''0''), (''minor'', ''14''), (''major'', ''0'')] ''minor'' = Some mi'"
        "groupdict [(''prerelease'', ''alpha.1.2''),
           (''patch'', ''0''), (''minor'', ''14''), (''major'', ''0'')] ''patch'' = Some pa'"
    and r2: "\<forall>p1 p2. str_split (CHR ''.'') ''alpha.1.2'' = [''alpha'', p1, p2] \<longrightarrow>
           create_pep440_version ''v0.14.0-alpha.1.2'' =
             Inr (maj' @ ''.'' @ mi' @ ''.'' @ pa' @ ''a'' @ p1 @ ''.dev'' @ p2
                  @ get_local_version_label (groupdict [(''prerelease'', ''alpha.1.2''),
                      (''patch'', ''0''), (''minor'', ''14''), (''major'', ''0'')]))"
    by blast
  from m2 have v2: "maj' = ''0''" "mi' = ''14''" "pa' = ''0''" by (simp_all add: groupdict_def)
  from r2 sp(2) have c2: "create_pep440_version ''v0.14.0-alpha.1.2'' = Inr ''0.14.0a1.dev2''"
    by (simp add: v2 lab(2))
  from c1 c2 show ?thesis by simp
qed

text \<open>
  C5 as the specification words it fails: a grammar-valid input with a
  two-part \<^verbatim>\<open>beta\<close> prerelease and a marker in its buildmetadata has no output.
\<close>

theorem C5_marker_counterexample:
  "re_match semver_pattern ''v1.0.0-beta.1+unstaged'' =
     Some [(''buildmetadata'', ''unstaged''), (''prerelease'', ''beta.1''),
           (''patch'', ''0''), (''minor'', ''0''), (''major'', ''1'')]
   \<and> str_split (CHR ''.'') ''beta.1'' = [''beta'', ''1'']
   \<and> create_pep440_version ''v1.0.0-beta.1+unstaged'' = Inl (ValueError
    ''Cannot create PEP440-compliant version identifier if there are uncommited or unstaged changes.'')"
  by code_simp

text \<open>
  C6, as the code has it: when the pattern matches and the first part of the prerelease is
  \<^verbatim>\<open>dev\<close>: with two parts, and neither marker in the input, the output is the release
  followed by \<^verbatim>\<open>.dev\<close> and part 1, with no prerelease segment; with three parts the
  conversion ends with \<^verbatim>\<open>ValueError\<close>.
\<close>

theorem C6_dev_label:
  assumes "re_match semver_pattern s = Some G"
    and "groupdict G ''prerelease'' = Some pre"
  shows "\<exists>maj mi pa.
     groupdict G ''major'' = Some maj \<and> groupdict G ''minor'' = Some mi
     \<and> groupdict G ''patch'' = Some pa
     \<and> (\<forall>p1. str_split (CHR ''.'') pre = [''dev'', p1]
             \<and> \<not> str_contains ''unstaged'' s \<and> \<not> str_contains ''uncommitted'' s \<longrightarrow>
           create_pep440_version s =
             Inr (maj @ ''.'' @ mi @ ''.'' @ pa @ ''.dev'' @ p1
                  @ get_local_version_label (groupdict G)))
     \<and> (\<forall>p1 p2. str_split (CHR ''.'') pre = [''dev'', p1, p2] \<longrightarrow>
           (\<exists>msg. create_pep440_version s = Inl (ValueError msg)))"
proof -
  from semver_match_groups[OF assms(1)] obtain maj mi pa where
    g: "groupdict G ''major'' = Some maj" "groupdict G ''minor'' = Some mi"
       "groupdict G ''patch'' = Some pa" by blast
  have ne: "pre \<noteq> []" using assms(1,2) by (rule prerelease_group_nonempty)
  have two: "create_pep440_version s =
             Inr (maj @ ''.'' @ mi @ ''.'' @ pa @ ''.dev'' @ p1
                  @ get_local_version_label (groupdict G))"
    if sp: "str_split (CHR ''.'') pre = [''dev'', p1]"
      and nm: "\<not> str_contains ''unstaged'' s" "\<not> str_contains ''uncommitted'' s" for p1
  proof -
    have "length ([]::string list) \<le> 1" by simp
    from get_prerelease_dev[where rd = "groupdict G" and more = "[]", OF assms(2) ne sp this]
    show ?thesis using create_on_match[OF assms(1) nm g] by simp
  qed
  have three: "\<exists>msg. create_pep440_version s = Inl (ValueError msg)"
    if sp: "str_split (CHR ''.'') pre = [''dev'', p1, p2]" for p1 p2
  proof -
    have "length [p2] \<le> 1" by simp
    from get_prerelease_dev[where rd = "groupdict G" and more = "[p2]", OF assms(2) ne sp this]
    have "get_prerelease_and_dev_segment (groupdict G) = raise_error pre" by simp
    with assms(1) show ?thesis by (rule create_raise_error)
  qed
  from g two three show ?thesis by blast
qed

lemma match_dev_two:
  "re_match semver_pattern ''v0.13.1-dev.1'' =
     Some [(''prerelease'', ''dev.1''), (''patch'', ''1''), (''minor'', ''13''), (''major'', ''0'')]"
  by code_simp

lemma match_dev_three:
  "re_match semver_pattern ''v1.0.0-dev.1.2'' =
     Some [(''prerelease'', ''dev.1.2''), (''patch'', ''0''), (''minor'', ''0''), (''major'', ''1'')]"
  by code_simp

lemma no_markers_dev:
  "\<not> str_contains ''unstaged'' ''v0.13.1-dev.1''"
  "\<not> str_contains ''uncommitted'' ''v0.13.1-dev.1''"
  by code_simp+

theorem C6_dev_label_witness:
  "create_pep440_version ''v0.13.1-dev.1'' = Inr ''0.13.1.dev1''
   \<and> (\<exists>msg. create_pep440_version ''v1.0.0-dev.1.2'' = Inl (ValueError msg))"
proof -
  have g1: "groupdict [(''prerelease'', ''dev.1''), (''patch'', ''1''), (''minor'', ''13''),
              (''major'', ''0'')] ''prerelease'' = Some ''dev.1''"
    by (simp add: groupdict_def)
  have g2: "groupdict [(''prerelease'', ''dev.1.2''), (''patch'', ''0''), (''minor'', ''0''),
              (''major'', ''1'')] ''prerelease'' = Some ''dev.1.2''"
    by (simp add: groupdict_def)
  have sp: "str_split (CHR ''.'') ''dev.1'' = [''dev'', ''1'']"
    "str_split (CHR ''.'') ''dev.1.2'' = [''dev'', ''1'', ''2'']" by simp_all
  have lab: "get_local_version_label (groupdict [(''prerelease'', ''dev.1''), (''patch'', ''1''),
              (''minor'', ''13''), (''major'', ''0'')]) = ''''"
    by (simp add: groupdict_def get_local_version_label_def)
  from C6_dev_label[OF match_dev_two g1] obtain maj mi pa where
    m1: "groupdict [(''prerelease'', ''dev.1''), (''patch'', ''1''), (''minor'', ''13''),
              (''major'', ''0'')] ''major'' = Some maj"
        "groupdict [(''prerelease'', ''dev.1''), (''patch'', ''1''), (''minor'', ''13''),
              (''major'', ''0'')] ''minor'' = Some mi"
        "groupdict [(''prerelease'', ''dev.1''), (''patch'', ''1''), (''minor'', ''13''),
              (''major'', ''0'')] ''patch'' = Some pa"
    and r1: "\<forall>p1. str_split (CHR ''.'') ''dev.1'' = [''dev'', p1]
             \<and> \<not> str_contains ''unstaged'' ''v0.13.1-dev.1''
             \<and> \<not> str_contains ''uncommitted'' ''v0.13.1-dev.1'' \<longrightarrow>
           create_pep440_version ''v0.13.1-dev.1'' =
             Inr (maj @ ''.'' @ mi @ ''.'' @ pa @ ''.dev'' @ p1
                  @ get_local_version_label (groupdict [(''prerelease'', ''dev.1''),
                      (''patch'', ''1''), (''minor'', ''13''), (''major'', ''0'')]))"
    by blast
  from m1 have v1: "maj = ''0''" "mi = ''13''" "pa = ''1''" by (simp_all add: groupdict_def)
  from r1 sp(1) no_markers_dev
  have c1: "create_pep440_version ''v0.13.1-dev.1'' = Inr ''0.13.1.dev1''"
    by (simp add: v1 lab)
  from C6_dev_label[OF match_dev_three g2] sp(2)
  have c2: "\<exists>msg. create_pep440_version ''v1.0.0-dev.1.2'' = Inl (ValueError msg)"
    by blast
  from c1 c2 show ?thesis by simp
qed

text \<open>
  C6 as the specification words it fails in its first half: a grammar-valid input with a
  two-part \<^verbatim>\<open>dev\<close> prerelease and a marker in its buildmetadata has no output.
\<close>

theorem C6_marker_counterexample:
  "re_match semver_pattern ''v1.0.0-dev.1+uncommitted'' =
     Some [(''buildmetadata'', ''uncommitted''), (''prerelease'', ''dev.1''),
           (''patch'', ''0''), (''minor'', ''0''), (''major'', ''1'')]
   \<and> str_split (CHR ''.'') ''dev.1'' = [''dev'', ''1'']
   \<and> create_pep440_version ''v1.0.0-dev.1+uncommitted'' = Inl (ValueError
    ''Cannot create PEP440-compliant version identifier if there are uncommited or unstaged changes.'')"
  by code_simp

section \<open>Values that are not numbers\<close>

lemma not_digit_marks [simp]:
  "\<not> is_digit (CHR ''.'')" "\<not> is_digit (CHR ''+'')" "\<not> is_digit (CHR ''a'')"
  "\<not> is_digit (CHR ''b'')" "\<not> is_digit (CHR ''r'')"
  by (simp_all add: is_digit_def in_range_def)



























end
